theory Spec2Isabelle
  imports Main
begin

section \<open>The page: a video element, a canvas element and one PostProcessor\<close>

text \<open>
  The script \<^verbatim>\<open>01/main.js\<close> defines one class, \<^verbatim>\<open>PostProcessor\<close>, and builds one
  instance of it from the page's video and canvas elements. The class calls into the
  browser: event listeners, video frame callbacks, the canvas and its 2D context. Their
  behaviour is the platform's (DOM, HTML and the video frame callback specification); it is
  written out below where the class uses it, with these conventions:

  \<^item> a function object has an identity; every call of \<^verbatim>\<open>f.bind(this)\<close> returns a new
    function object, different from \<^verbatim>\<open>f\<close> and from every earlier result of \<^verbatim>\<open>bind\<close>;
  \<^item> \<^verbatim>\<open>addEventListener\<close> appends a listener unless the same type and callback are
    registered already, \<^verbatim>\<open>removeEventListener\<close> removes the listener of that type and that
    callback and does nothing when there is none;
  \<^item> \<^verbatim>\<open>requestVideoFrameCallback\<close> increments the element's callback identifier, queues the
    callback under it and returns it; \<^verbatim>\<open>cancelVideoFrameCallback\<close> removes the entries of
    that identifier and does nothing when there is none;
  \<^item> writing the width or the height of a canvas clears its bitmap and resets its 2D
    context to the default state, whose filter is \<^verbatim>\<open>none\<close>;
  \<^item> reading a property of \<^verbatim>\<open>null\<close> or \<^verbatim>\<open>undefined\<close> raises a TypeError.

  Pixel dimensions are natural numbers and the canvas takes every dimension the video
  reports; the canvas element gives a 2D context when asked for one; the filter string of
  the source is one the context accepts. One instance is built, as the script does, so a
  bound function has that instance for its receiver.
\<close>

datatype member = Resize | ProcessFrame

text \<open>
  \<open>Method m\<close> is the function object stored on the prototype, which is what the expression
  \<^verbatim>\<open>this.resize\<close> evaluates to; \<open>Bound k m\<close> is the function object returned by the
  \<open>k\<close>-th call of \<^verbatim>\<open>bind\<close>, with the instance as its receiver.
\<close>

datatype fn = Method member | Bound nat member

text \<open>
  What a variable holding an element can be: never assigned, \<^verbatim>\<open>null\<close> (what
  \<^verbatim>\<open>document.querySelector\<close> returns when nothing matches), or the element.
\<close>

datatype ref = Undefined | Null | Elem

datatype error = TypeError

record post_processor =
  destroyed :: bool
  video :: ref
  canvas :: ref
  ctx :: ref
  callback :: "nat option"

text \<open>One call of \<^verbatim>\<open>drawImage(image, dx, dy)\<close>: the frame drawn and where.\<close>

record blit =
  src_frame :: nat
  dx :: int
  dy :: int

record video_el =
  videoWidth :: nat
  videoHeight :: nat
  current_frame :: nat
  listeners :: "(string \<times> fn) list"
  frame_callbacks :: "(nat \<times> fn) list"
  last_handle :: nat

text \<open>The canvas with the state of its 2D context: the filter and what has been drawn since
  the bitmap was last cleared.\<close>

record canvas_el =
  width :: nat
  height :: nat
  ctx_filter :: string
  bitmap :: "blit list"

text \<open>
  \<open>this\<close> is the instance (the slot is overwritten by \<^verbatim>\<open>new\<close>), \<open>blits\<close> the trace of all
  \<^verbatim>\<open>drawImage\<close> calls made so far, \<open>binds\<close> the number of function objects \<^verbatim>\<open>bind\<close> has made.
\<close>

record world =
  this :: post_processor
  video_el :: video_el
  canvas_el :: canvas_el
  blits :: "blit list"
  binds :: nat

subsection \<open>Platform operations used by the class\<close>

definition addEventListener :: "string \<Rightarrow> fn \<Rightarrow> video_el \<Rightarrow> video_el" where
  "addEventListener t f v =
     (if (t, f) \<in> set (listeners v) then v else v\<lparr>listeners := listeners v @ [(t, f)]\<rparr>)"

definition removeEventListener :: "string \<Rightarrow> fn \<Rightarrow> video_el \<Rightarrow> video_el" where
  "removeEventListener t f v = v\<lparr>listeners := filter (\<lambda>l. l \<noteq> (t, f)) (listeners v)\<rparr>"

definition requestVideoFrameCallback :: "fn \<Rightarrow> video_el \<Rightarrow> nat \<times> video_el" where
  "requestVideoFrameCallback f v =
     (let h = last_handle v + 1
      in (h, v\<lparr>last_handle := h, frame_callbacks := frame_callbacks v @ [(h, f)]\<rparr>))"

definition cancelVideoFrameCallback :: "nat \<Rightarrow> video_el \<Rightarrow> video_el" where
  "cancelVideoFrameCallback h v =
     v\<lparr>frame_callbacks := filter (\<lambda>e. fst e \<noteq> h) (frame_callbacks v)\<rparr>"

definition set_width :: "nat \<Rightarrow> canvas_el \<Rightarrow> canvas_el" where
  "set_width n c = c\<lparr>width := n, ctx_filter := ''none'', bitmap := []\<rparr>"

definition set_height :: "nat \<Rightarrow> canvas_el \<Rightarrow> canvas_el" where
  "set_height n c = c\<lparr>height := n, ctx_filter := ''none'', bitmap := []\<rparr>"

definition set_filter :: "string \<Rightarrow> canvas_el \<Rightarrow> canvas_el" where
  "set_filter s c = c\<lparr>ctx_filter := s\<rparr>"

definition drawImage :: "blit \<Rightarrow> world \<Rightarrow> world" where
  "drawImage b w =
     w\<lparr>canvas_el := (canvas_el w)\<lparr>bitmap := bitmap (canvas_el w) @ [b]\<rparr>,
       blits := blits w @ [b]\<rparr>"

text \<open>\<^verbatim>\<open>this.m.bind(this)\<close>: a new function object.\<close>

definition bind_method :: "member \<Rightarrow> world \<Rightarrow> fn \<times> world" where
  "bind_method m w = (Bound (binds w) m, w\<lparr>binds := binds w + 1\<rparr>)"

text \<open>The conversion of \<^verbatim>\<open>this.callback\<close> to the unsigned long that
  \<^verbatim>\<open>cancelVideoFrameCallback\<close> takes: \<^verbatim>\<open>undefined\<close> becomes 0.\<close>

definition handle_of :: "nat option \<Rightarrow> nat" where
  "handle_of c = (case c of None \<Rightarrow> 0 | Some h \<Rightarrow> h)"

section \<open>The class PostProcessor\<close>

definition filter_expr :: string where
  "filter_expr = ''contrast(1.5) saturate(200%)''"

text \<open>
  \<^verbatim>\<open>resize () {
    this.canvas.width = this.video.videoWidth
    this.canvas.height = this.video.videoHeight
    this.ctx.filter = 'contrast(1.5) saturate(200%)'
  }\<close>
  Each member function returns the error it raised, if any, with the world as it was left.
\<close>

definition resize :: "world \<Rightarrow> error option \<times> world" where
  "resize w =
     (if canvas (this w) \<noteq> Elem \<or> video (this w) \<noteq> Elem then (Some TypeError, w)
      else
        let w1 = w\<lparr>canvas_el := set_width (videoWidth (video_el w)) (canvas_el w)\<rparr>;
            w2 = w1\<lparr>canvas_el := set_height (videoHeight (video_el w1)) (canvas_el w1)\<rparr>
        in if ctx (this w2) \<noteq> Elem then (Some TypeError, w2)
           else (None, w2\<lparr>canvas_el := set_filter filter_expr (canvas_el w2)\<rparr>))"

text \<open>
  \<^verbatim>\<open>async processFrame () {
    this.ctx.drawImage(this.video, 0, 0)
    this.callback = this.video.requestVideoFrameCallback(this.processFrame.bind(this))
  }\<close>
  The body has no \<^verbatim>\<open>await\<close>, so it runs to its end when the function is called.
\<close>

definition processFrame :: "world \<Rightarrow> error option \<times> world" where
  "processFrame w =
     (if ctx (this w) \<noteq> Elem \<or> video (this w) \<noteq> Elem then (Some TypeError, w)
      else
        let w1 = drawImage \<lparr>src_frame = current_frame (video_el w), dx = 0, dy = 0\<rparr> w;
            (f, w2) = bind_method ProcessFrame w1;
            (h, v) = requestVideoFrameCallback f (video_el w2)
        in (None, w2\<lparr>video_el := v, this := (this w2)\<lparr>callback := Some h\<rparr>\<rparr>))"

text \<open>
  \<^verbatim>\<open>destroy () {
    this.destroyed = true
    this.video.cancelVideoFrameCallback(this.callback)
    this.video.removeEventListener('resize', this.resize)
    this.video.removeEventListener('loadedmetadata', this.resize)
  }\<close>
\<close>

definition destroy :: "world \<Rightarrow> error option \<times> world" where
  "destroy w =
     (let w1 = w\<lparr>this := (this w)\<lparr>destroyed := True\<rparr>\<rparr>
      in if video (this w1) \<noteq> Elem then (Some TypeError, w1)
         else
           let v1 = cancelVideoFrameCallback (handle_of (callback (this w1))) (video_el w1);
               v2 = removeEventListener ''resize'' (Method Resize) v1;
               v3 = removeEventListener ''loadedmetadata'' (Method Resize) v2
           in (None, w1\<lparr>video_el := v3\<rparr>))"

text \<open>
  \<^verbatim>\<open>constructor (video, canvas) {
    this.destroyed = false
    this.video = video
    this.canvas = canvas
    video.addEventListener('resize', this.resize.bind(this))
    video.addEventListener('loadedmetadata', this.resize.bind(this))
    this.ctx = canvas.getContext('2d')
    this.resize()
    this.callback = video.requestVideoFrameCallback(this.processFrame.bind(this))
  }\<close>
  \<open>constructor v c w\<close> is \<^verbatim>\<open>new PostProcessor(v, c)\<close> in the world \<open>w\<close>.
\<close>

definition constructor :: "ref \<Rightarrow> ref \<Rightarrow> world \<Rightarrow> error option \<times> world" where
  "constructor v c w =
     (let w0 = w\<lparr>this := \<lparr>destroyed = False, video = v, canvas = c,
                           ctx = Undefined, callback = None\<rparr>\<rparr>
      in if v \<noteq> Elem then (Some TypeError, w0)
         else
           let (f1, w1) = bind_method Resize w0;
               w2 = w1\<lparr>video_el := addEventListener ''resize'' f1 (video_el w1)\<rparr>;
               (f2, w3) = bind_method Resize w2;
               w4 = w3\<lparr>video_el := addEventListener ''loadedmetadata'' f2 (video_el w3)\<rparr>
           in if c \<noteq> Elem then (Some TypeError, w4)
              else
                let w5 = w4\<lparr>this := (this w4)\<lparr>ctx := Elem\<rparr>\<rparr>
                in case resize w5 of
                     (Some e, w6) \<Rightarrow> (Some e, w6)
                   | (None, w6) \<Rightarrow>
                       let (f3, w7) = bind_method ProcessFrame w6;
                           (h, v') = requestVideoFrameCallback f3 (video_el w7)
                       in (None, w7\<lparr>video_el := v', this := (this w7)\<lparr>callback := Some h\<rparr>\<rparr>))"

section \<open>Notifications\<close>

text \<open>
  The platform calling a function object. A bound function runs its member function on the instance.
  The prototype's own function would run with the video element (as a listener) or
  \<^verbatim>\<open>undefined\<close> (as a frame callback) for \<^verbatim>\<open>this\<close>, where \<^verbatim>\<open>this.canvas\<close> and \<^verbatim>\<open>this.ctx\<close>
  are undefined, and raises.
\<close>

definition call :: "fn \<Rightarrow> world \<Rightarrow> error option \<times> world" where
  "call f w =
     (case f of
        Bound k Resize \<Rightarrow> resize w
      | Bound k ProcessFrame \<Rightarrow> processFrame w
      | Method m \<Rightarrow> (Some TypeError, w))"

text \<open>An error raised by a listener or a callback is reported and the platform goes on
  with the next one.\<close>

definition invoke_all :: "fn list \<Rightarrow> world \<Rightarrow> world" where
  "invoke_all fs w = foldl (\<lambda>s f. snd (call f s)) w fs"

definition dispatch :: "string \<Rightarrow> world \<Rightarrow> world" where
  "dispatch t w = invoke_all (map snd (filter (\<lambda>l. fst l = t) (listeners (video_el w)))) w"

text \<open>A frame is presented: the queued frame callbacks are taken off the element and run;
  what they queue is for the next frame.\<close>

definition present_frame :: "nat \<Rightarrow> world \<Rightarrow> world" where
  "present_frame fr w =
     (let cbs = frame_callbacks (video_el w);
          w1 = w\<lparr>video_el := (video_el w)\<lparr>current_frame := fr, frame_callbacks := []\<rparr>\<rparr>
      in invoke_all (map snd cbs) w1)"

definition set_dimensions :: "nat \<Rightarrow> nat \<Rightarrow> world \<Rightarrow> world" where
  "set_dimensions vw vh w = w\<lparr>video_el := (video_el w)\<lparr>videoWidth := vw, videoHeight := vh\<rparr>\<rparr>"

datatype event =
    FramePresented nat
  | DimensionsChanged nat nat
  | MetadataLoaded nat nat
  | CallDestroy

fun step :: "event \<Rightarrow> world \<Rightarrow> world" where
  "step (FramePresented fr) w = present_frame fr w"
| "step (DimensionsChanged vw vh) w = dispatch ''resize'' (set_dimensions vw vh w)"
| "step (MetadataLoaded vw vh) w = dispatch ''loadedmetadata'' (set_dimensions vw vh w)"
| "step CallDestroy w = snd (destroy w)"

fun run :: "event list \<Rightarrow> world \<Rightarrow> world" where
  "run [] w = w"
| "run (e # es) w = run es (step e w)"

text \<open>A frame notification that reaches the handler although its subscription is no longer
  queued: the bound function of that subscription is called all the same.\<close>

definition deliver_stale :: "nat \<Rightarrow> world \<Rightarrow> world" where
  "deliver_stale k w = snd (call (Bound k ProcessFrame) w)"

text \<open>The page as the script finds it: nothing listens to the video and no frame callback
  is queued.\<close>

definition fresh_page :: "world \<Rightarrow> bool" where
  "fresh_page w \<longleftrightarrow> listeners (video_el w) = [] \<and> frame_callbacks (video_el w) = []"

definition page0 :: world where
  "page0 = \<lparr>this = \<lparr>destroyed = False, video = Undefined, canvas = Undefined,
                      ctx = Undefined, callback = None\<rparr>,
            video_el = \<lparr>videoWidth = 640, videoHeight = 360, current_frame = 0,
                         listeners = [], frame_callbacks = [], last_handle = 0\<rparr>,
            canvas_el = \<lparr>width = 300, height = 150, ctx_filter = ''none'', bitmap = []\<rparr>,
            blits = [], binds = 0\<rparr>"

section \<open>Invariants of the running page\<close>

text \<open>
  \<open>wired b w\<close>: the instance holds its three references and the video carries the two
  listeners the constructor registered, the function objects number \<open>b\<close> and \<open>b + 1\<close>.
  \<open>armed w\<close>: exactly one frame callback is queued, it is a bound \<^verbatim>\<open>processFrame\<close>, and
  \<^verbatim>\<open>this.callback\<close> is its identifier. \<open>idle w\<close>: no frame callback is queued.
\<close>

definition wired :: "nat \<Rightarrow> world \<Rightarrow> bool" where
  "wired b w \<longleftrightarrow> video (this w) = Elem \<and> canvas (this w) = Elem \<and> ctx (this w) = Elem \<and>
     listeners (video_el w) = [(''resize'', Bound b Resize), (''loadedmetadata'', Bound (Suc b) Resize)]"

definition armed :: "world \<Rightarrow> bool" where
  "armed w \<longleftrightarrow> (\<exists>h k. frame_callbacks (video_el w) = [(h, Bound k ProcessFrame)] \<and>
                       callback (this w) = Some h)"

definition idle :: "world \<Rightarrow> bool" where
  "idle w \<longleftrightarrow> frame_callbacks (video_el w) = []"

text \<open>The frames of the frame notifications in a sequence of events, in order, and the
  blit that \<^verbatim>\<open>drawImage(this.video, 0, 0)\<close> makes of a frame.\<close>

fun frames_of :: "event list \<Rightarrow> nat list" where
  "frames_of [] = []"
| "frames_of (FramePresented fr # es) = fr # frames_of es"
| "frames_of (e # es) = frames_of es"

definition blit_of :: "nat \<Rightarrow> blit" where
  "blit_of fr = \<lparr>src_frame = fr, dx = 0, dy = 0\<rparr>"

section \<open>The methods on a wired page\<close>

lemmas canvas_ops = set_width_def set_height_def set_filter_def

lemmas model_defs = constructor_def resize_def destroy_def processFrame_def Let_def
  bind_method_def canvas_ops requestVideoFrameCallback_def cancelVideoFrameCallback_def
  addEventListener_def removeEventListener_def handle_of_def drawImage_def
  present_frame_def dispatch_def set_dimensions_def invoke_all_def call_def

lemma resize_frame:
  shows "this (snd (resize w)) = this w"
    and "video_el (snd (resize w)) = video_el w"
    and "blits (snd (resize w)) = blits w"
    and "binds (snd (resize w)) = binds w"
  by (simp_all add: resize_def Let_def)

lemma resize_wired:
  assumes "wired b w"
  shows "fst (resize w) = None" and "wired b (snd (resize w))"
  using assms by (simp_all add: wired_def resize_frame) (simp add: resize_def Let_def)

lemma resize_surface:
  assumes "fst (resize w) = None"
  shows "canvas_el (snd (resize w)) =
     \<lparr>width = videoWidth (video_el w), height = videoHeight (video_el w),
      ctx_filter = filter_expr, bitmap = []\<rparr>"
  using assms
  by (simp add: resize_def Let_def canvas_ops split: if_splits)

lemma resize_armed: "armed (snd (resize w)) = armed w"
  by (simp add: armed_def resize_frame)

lemma resize_idle: "idle (snd (resize w)) = idle w"
  by (simp add: idle_def resize_frame)

lemma dispatch_wired:
  assumes "wired b w" and "t = ''resize'' \<or> t = ''loadedmetadata''"
  shows "dispatch t w = snd (resize w)"
  using assms by (auto simp add: dispatch_def invoke_all_def wired_def call_def)

lemma set_dimensions_wired: "wired b w \<Longrightarrow> wired b (set_dimensions vw vh w)"
  by (simp add: wired_def set_dimensions_def)

lemma resize_event:
  assumes "wired b w"
  shows "dispatch ''resize'' (set_dimensions vw vh w) = snd (resize (set_dimensions vw vh w))"
    and "dispatch ''loadedmetadata'' (set_dimensions vw vh w) = snd (resize (set_dimensions vw vh w))"
  using dispatch_wired [OF set_dimensions_wired [OF assms]] by simp_all

lemma set_dimensions_armed: "armed w \<Longrightarrow> armed (set_dimensions vw vh w)"
  by (simp add: armed_def set_dimensions_def)

lemma set_dimensions_idle: "idle w \<Longrightarrow> idle (set_dimensions vw vh w)"
  by (simp add: idle_def set_dimensions_def)

lemma set_dimensions_blits: "blits (set_dimensions vw vh w) = blits w"
  by (simp add: set_dimensions_def)

lemma present_frame_armed:
  assumes "wired b w" and "armed w"
  shows "wired b (present_frame fr w)"
    and "armed (present_frame fr w)"
    and "blits (present_frame fr w) = blits w @ [blit_of fr]"
    and "destroyed (this (present_frame fr w)) = destroyed (this w)"
  using assms
  by (auto simp add: wired_def armed_def present_frame_def invoke_all_def call_def
      processFrame_def drawImage_def bind_method_def requestVideoFrameCallback_def
      blit_of_def Let_def)

lemma present_frame_idle:
  assumes "idle w"
  shows "present_frame fr w = w\<lparr>video_el := (video_el w)\<lparr>current_frame := fr, frame_callbacks := []\<rparr>\<rparr>"
  using assms by (simp add: idle_def present_frame_def invoke_all_def)

lemma destroy_wired:
  assumes "wired b w"
  shows "fst (destroy w) = None"
    and "wired b (snd (destroy w))"
    and "blits (snd (destroy w)) = blits w"
  using assms
  by (simp_all add: wired_def destroy_def Let_def cancelVideoFrameCallback_def
      removeEventListener_def)

lemma destroy_idle:
  assumes "armed w \<or> idle w" and "video (this w) = Elem"
  shows "idle (snd (destroy w))"
  using assms
  by (auto simp add: armed_def idle_def destroy_def Let_def cancelVideoFrameCallback_def
      removeEventListener_def handle_of_def)

lemma step_wired:
  assumes "wired b w" and "armed w \<or> idle w"
  shows "wired b (step e w) \<and> (armed (step e w) \<or> idle (step e w))"
proof (cases e)
  case (FramePresented fr)
  from assms(2) show ?thesis
  proof
    assume "armed w"
    with assms(1) FramePresented show ?thesis by (simp add: present_frame_armed)
  next
    assume i: "idle w"
    with assms(1) FramePresented show ?thesis
      by (simp add: present_frame_idle) (simp add: wired_def idle_def)
  qed
next
  case (DimensionsChanged vw vh)
  with assms show ?thesis
    by (auto simp add: resize_event [OF assms(1)] resize_armed resize_idle
        resize_wired(2) [OF set_dimensions_wired [OF assms(1)]]
        intro: set_dimensions_armed set_dimensions_idle)
next
  case (MetadataLoaded vw vh)
  with assms show ?thesis
    by (auto simp add: resize_event [OF assms(1)] resize_armed resize_idle
        resize_wired(2) [OF set_dimensions_wired [OF assms(1)]]
        intro: set_dimensions_armed set_dimensions_idle)
next
  case CallDestroy
  have "video (this w) = Elem" using assms(1) by (simp add: wired_def)
  with assms CallDestroy show ?thesis
    by (simp add: destroy_wired(2) [OF assms(1)] destroy_idle)
qed

lemma run_wired:
  "wired b w \<Longrightarrow> armed w \<or> idle w \<Longrightarrow> wired b (run es w) \<and> (armed (run es w) \<or> idle (run es w))"
proof (induction es arbitrary: w)
  case Nil
  then show ?case by simp
next
  case (Cons e es)
  from step_wired [OF Cons.prems] Cons.IH show ?case by simp
qed

lemma step_idle:
  assumes "wired b w" and "idle w"
  shows "idle (step e w) \<and> blits (step e w) = blits w"
proof (cases e)
  case (FramePresented fr)
  with assms show ?thesis by (simp add: present_frame_idle) (simp add: idle_def)
next
  case (DimensionsChanged vw vh)
  with assms show ?thesis
    by (simp add: resize_event [OF assms(1)] resize_frame set_dimensions_blits resize_idle
        set_dimensions_idle)
next
  case (MetadataLoaded vw vh)
  with assms show ?thesis
    by (simp add: resize_event [OF assms(1)] resize_frame set_dimensions_blits resize_idle
        set_dimensions_idle)
next
  case CallDestroy
  have "video (this w) = Elem" using assms(1) by (simp add: wired_def)
  with assms CallDestroy show ?thesis
    by (simp add: destroy_wired(3) [OF assms(1)] destroy_idle)
qed

lemma run_idle:
  "wired b w \<Longrightarrow> idle w \<Longrightarrow> idle (run es w) \<and> blits (run es w) = blits w"
proof (induction es arbitrary: w)
  case Nil
  then show ?case by simp
next
  case (Cons e es)
  have s: "idle (step e w)" "blits (step e w) = blits w"
    using step_idle [OF Cons.prems] by simp_all
  have "wired b (step e w)"
    using step_wired [of b w e] Cons.prems by simp
  from Cons.IH [OF this s(1)] s(2) show ?case by simp
qed

lemma step_armed:
  assumes "wired b w" and "armed w" and "e \<noteq> CallDestroy"
  shows "wired b (step e w)" and "armed (step e w)"
    and "blits (step e w) = blits w @ map blit_of (frames_of [e])"
    and "destroyed (this (step e w)) = destroyed (this w)"
  using assms
  by (cases e; simp add: present_frame_armed resize_event [OF assms(1)] resize_frame
        resize_wired(2) [OF set_dimensions_wired [OF assms(1)]]
        set_dimensions_blits resize_armed set_dimensions_armed; simp add: set_dimensions_def)+

lemma frames_of_Cons: "frames_of (e # es) = frames_of [e] @ frames_of es"
  by (cases e) simp_all

lemma run_armed:
  "wired b w \<Longrightarrow> armed w \<Longrightarrow> CallDestroy \<notin> set es \<Longrightarrow>
     wired b (run es w) \<and> armed (run es w) \<and>
     blits (run es w) = blits w @ map blit_of (frames_of es) \<and>
     destroyed (this (run es w)) = destroyed (this w)"
proof (induction es arbitrary: w)
  case Nil
  then show ?case by simp
next
  case (Cons e es)
  from Cons.prems have ne: "e \<noteq> CallDestroy" and rest: "CallDestroy \<notin> set es" by auto
  note st = step_armed [OF Cons.prems(1,2) ne]
  from Cons.IH [OF st(1,2) rest] st(3,4) show ?case
    by (simp add: frames_of_Cons [of e es])
qed

lemma constructor_ok:
  "fst (constructor v c w) = None \<longleftrightarrow> v = Elem \<and> c = Elem"
  by (simp add: constructor_def resize_def Let_def bind_method_def canvas_ops
      requestVideoFrameCallback_def split: prod.splits option.splits)

lemma constructor_wired:
  assumes "fresh_page p" and "fst (constructor v c p) = None"
  shows "wired (binds p) (snd (constructor v c p))"
    and "armed (snd (constructor v c p))"
    and "blits (snd (constructor v c p)) = blits p"
    and "\<not> destroyed (this (snd (constructor v c p)))"
  using assms
  by (simp_all add: constructor_ok fresh_page_def) (simp_all add: constructor_def resize_def Let_def bind_method_def canvas_ops
      requestVideoFrameCallback_def addEventListener_def wired_def armed_def)


lemma destroy_idem: "snd (destroy (snd (destroy w))) = snd (destroy w)"
  by (simp add: destroy_def Let_def cancelVideoFrameCallback_def removeEventListener_def)

lemma reachable:
  assumes "fresh_page p" and "fst (constructor v c p) = None"
  shows "wired (binds p) (run es (snd (constructor v c p)))"
    and "armed (run es (snd (constructor v c p))) \<or> idle (run es (snd (constructor v c p)))"
  using run_wired [OF constructor_wired(1) [OF assms], of es] constructor_wired(2) [OF assms]
  by simp_all

section \<open>Properties\<close>

subsection \<open>Destruction and frame notifications\<close>

text \<open>
  C1, as the code has it. After a successful construction on a fresh page and any events,
  once \<^verbatim>\<open>destroy()\<close> has returned no frame callback is queued on the video, and whatever
  notifications the platform delivers afterwards (frames presented, dimensions changed,
  metadata loaded, further calls of \<^verbatim>\<open>destroy\<close>) the trace of blits stays what it was
  when \<^verbatim>\<open>destroy\<close> was called. The handler is silenced by cancelling its subscription,
  not by a test of the destroyed flag.
\<close>

theorem no_blit_after_destroy:
  assumes "fresh_page p" and "fst (constructor v c p) = None"
  shows "frame_callbacks (video_el (snd (destroy (run es (snd (constructor v c p)))))) = [] \<and>
         blits (run es' (snd (destroy (run es (snd (constructor v c p)))))) =
           blits (run es (snd (constructor v c p)))"
proof -
  define s where "s = run es (snd (constructor v c p))"
  have w: "wired (binds p) s" and ai: "armed s \<or> idle s"
    unfolding s_def using reachable [OF assms] by simp_all
  have v: "video (this s) = Elem" using w by (simp add: wired_def)
  have i: "idle (snd (destroy s))" using destroy_idle [OF ai v] .
  have w': "wired (binds p) (snd (destroy s))" using destroy_wired(2) [OF w] .
  from run_idle [OF w' i, of es'] i destroy_wired(3) [OF w]
  show ?thesis unfolding s_def by (simp add: idle_def)
qed

text \<open>C1, an instance: one frame is drawn before \<^verbatim>\<open>destroy()\<close>; two frames and a change of
  dimensions after it draw nothing more.\<close>

theorem no_blit_after_destroy_witness:
  "fresh_page page0 \<and> fst (constructor Elem Elem page0) = None \<and>
   blits (run [FramePresented 9, DimensionsChanged 8 6, FramePresented 10]
            (snd (destroy (run [FramePresented 7] (snd (constructor Elem Elem page0)))))) =
     [\<lparr>src_frame = 7, dx = 0, dy = 0\<rparr>]"
proof -
  have f: "fresh_page page0" by (simp add: fresh_page_def page0_def)
  have c: "fst (constructor Elem Elem page0) = None" by (simp add: constructor_ok)
  have b: "blits (run [FramePresented 7] (snd (constructor Elem Elem page0))) =
             [\<lparr>src_frame = 7, dx = 0, dy = 0\<rparr>]"
    by (simp add: constructor_def resize_def Let_def bind_method_def canvas_ops
      requestVideoFrameCallback_def addEventListener_def page0_def present_frame_def
      invoke_all_def call_def processFrame_def drawImage_def)
  from no_blit_after_destroy [OF f c, of "[FramePresented 7]"
      "[FramePresented 9, DimensionsChanged 8 6, FramePresented 10]"] f c b
  show ?thesis by simp
qed

text \<open>
  C1 as stated fails: \<^verbatim>\<open>processFrame\<close> does not read \<^verbatim>\<open>this.destroyed\<close>. On the page
  \<open>page0\<close> the constructor queues the function object number 2; after \<^verbatim>\<open>destroy()\<close> the
  flag is set and nothing has been drawn, and a call of that function object draws the
  current frame.
\<close>

theorem stale_frame_blits_after_destroy:
  "destroyed (this (snd (destroy (snd (constructor Elem Elem page0))))) \<and>
   blits (snd (destroy (snd (constructor Elem Elem page0)))) = [] \<and>
   blits (deliver_stale 2 (snd (destroy (snd (constructor Elem Elem page0))))) =
     [\<lparr>src_frame = 0, dx = 0, dy = 0\<rparr>]"
  by (simp add: deliver_stale_def model_defs page0_def)

subsection \<open>Destruction and the resize listeners\<close>

text \<open>
  C2 at a concrete page. The constructor registers two results of \<^verbatim>\<open>this.resize.bind(this)\<close>;
  \<^verbatim>\<open>destroy\<close> asks for the removal of \<^verbatim>\<open>this.resize\<close>, a different function object, so
  both listeners are still registered after \<^verbatim>\<open>destroy()\<close>, and a later dimensions-changed
  or metadata-loaded notification still runs \<^verbatim>\<open>resize\<close>: the canvas, 640 wide when
  \<^verbatim>\<open>destroy\<close> returned, follows the video to 1280 by 720.
\<close>

theorem listeners_survive_destroy:
  "listeners (video_el (snd (constructor Elem Elem page0))) =
     [(''resize'', Bound 0 Resize), (''loadedmetadata'', Bound 1 Resize)] \<and>
   listeners (video_el (snd (destroy (snd (constructor Elem Elem page0))))) =
     [(''resize'', Bound 0 Resize), (''loadedmetadata'', Bound 1 Resize)] \<and>
   width (canvas_el (snd (destroy (snd (constructor Elem Elem page0))))) = 640 \<and>
   width (canvas_el (step (DimensionsChanged 1280 720)
            (snd (destroy (snd (constructor Elem Elem page0)))))) = 1280 \<and>
   height (canvas_el (step (MetadataLoaded 1280 720)
            (snd (destroy (snd (constructor Elem Elem page0)))))) = 720"
  by (simp add: model_defs page0_def)

subsection \<open>Resize notifications\<close>

text \<open>
  C3. After a successful construction on a fresh page and any events that leave the
  instance not destroyed, a dimensions-changed or metadata-loaded notification that brings
  the video to \<open>vw\<close> by \<open>vh\<close> leaves the canvas \<open>vw\<close> wide and \<open>vh\<close> high, equal to the video's
  dimensions, with the filter expression the handler assigns, \<^verbatim>\<open>contrast(1.5) saturate(200%)\<close>:
  it is not empty, and it is not the \<^verbatim>\<open>none\<close> that the two writes of the dimensions leave.
\<close>

theorem resize_notification_sizes_surface:
  assumes "fresh_page p" and "fst (constructor v c p) = None"
    and "\<not> destroyed (this (run es (snd (constructor v c p))))"
    and "e = DimensionsChanged vw vh \<or> e = MetadataLoaded vw vh"
  shows "width (canvas_el (step e (run es (snd (constructor v c p))))) = vw \<and>
         height (canvas_el (step e (run es (snd (constructor v c p))))) = vh \<and>
         videoWidth (video_el (step e (run es (snd (constructor v c p))))) = vw \<and>
         videoHeight (video_el (step e (run es (snd (constructor v c p))))) = vh \<and>
         ctx_filter (canvas_el (step e (run es (snd (constructor v c p))))) =
           ''contrast(1.5) saturate(200%)'' \<and>
         ctx_filter (canvas_el (step e (run es (snd (constructor v c p))))) \<noteq> [] \<and>
         ctx_filter (canvas_el (step e (run es (snd (constructor v c p))))) \<noteq> ''none''"
proof -
  define s where "s = run es (snd (constructor v c p))"
  have w: "wired (binds p) s" unfolding s_def using reachable(1) [OF assms(1,2)] .
  define s' where "s' = set_dimensions vw vh s"
  have w': "wired (binds p) s'" unfolding s'_def using set_dimensions_wired [OF w] .
  have st: "step e s = snd (resize s')"
    using assms(4) resize_event [OF w] by (auto simp add: s'_def)
  have ok: "fst (resize s') = None" using resize_wired(1) [OF w'] .
  have dims: "videoWidth (video_el s') = vw" "videoHeight (video_el s') = vh"
    by (simp_all add: s'_def set_dimensions_def)
  from resize_surface [OF ok] resize_frame(2) [of s'] dims st
  show ?thesis unfolding s_def [symmetric] by (simp add: filter_expr_def)
qed

text \<open>C3, an instance: after one frame the video goes from 640 by 360 to 1280 by 720 and
  says so by a dimensions-changed notification; the canvas follows and carries the filter
  of the handler. A metadata-loaded notification does the same.\<close>

theorem resize_notification_sizes_surface_witness:
  "fresh_page page0 \<and> fst (constructor Elem Elem page0) = None \<and>
   \<not> destroyed (this (run [FramePresented 1] (snd (constructor Elem Elem page0)))) \<and>
   width (canvas_el (step (DimensionsChanged 1280 720)
      (run [FramePresented 1] (snd (constructor Elem Elem page0))))) = 1280 \<and>
   height (canvas_el (step (DimensionsChanged 1280 720)
      (run [FramePresented 1] (snd (constructor Elem Elem page0))))) = 720 \<and>
   ctx_filter (canvas_el (step (DimensionsChanged 1280 720)
      (run [FramePresented 1] (snd (constructor Elem Elem page0))))) =
     ''contrast(1.5) saturate(200%)'' \<and>
   width (canvas_el (step (MetadataLoaded 1920 1080)
      (run [FramePresented 1] (snd (constructor Elem Elem page0))))) = 1920 \<and>
   ctx_filter (canvas_el (step (MetadataLoaded 1920 1080)
      (run [FramePresented 1] (snd (constructor Elem Elem page0))))) =
     ''contrast(1.5) saturate(200%)''"
proof -
  have f: "fresh_page page0" by (simp add: fresh_page_def page0_def)
  have c: "fst (constructor Elem Elem page0) = None" by (simp add: constructor_ok)
  have d: "\<not> destroyed (this (run [FramePresented 1] (snd (constructor Elem Elem page0))))"
    by (simp add: model_defs page0_def)
  from resize_notification_sizes_surface [OF f c d, of "DimensionsChanged 1280 720" 1280 720]
    resize_notification_sizes_surface [OF f c d, of "MetadataLoaded 1920 1080" 1920 1080]
    f c d
  show ?thesis by simp
qed


subsection \<open>Frame notifications before destruction\<close>

text \<open>
  C4. After a successful construction on a fresh page, for every sequence of events without
  a call of \<^verbatim>\<open>destroy\<close>, the blits made are exactly one per frame notification, in order,
  each the frame then current drawn at the origin; so \<open>N\<close> frame notifications make \<open>N\<close>
  blits. After the sequence (hence after each notification of it) exactly one frame callback
  is queued, a bound \<^verbatim>\<open>processFrame\<close> whose identifier is \<^verbatim>\<open>this.callback\<close>.
\<close>

theorem frames_blit_once_each:
  assumes "fresh_page p" and "fst (constructor v c p) = None" and "CallDestroy \<notin> set es"
  shows "blits (run es (snd (constructor v c p))) =
           blits p @ map (\<lambda>fr. \<lparr>src_frame = fr, dx = 0, dy = 0\<rparr>) (frames_of es) \<and>
         length (blits (run es (snd (constructor v c p)))) =
           length (blits p) + length (frames_of es) \<and>
         length (frame_callbacks (video_el (run es (snd (constructor v c p))))) = 1 \<and>
         (\<exists>h k. frame_callbacks (video_el (run es (snd (constructor v c p)))) =
                   [(h, Bound k ProcessFrame)] \<and>
                 callback (this (run es (snd (constructor v c p)))) = Some h)"
proof -
  define s0 where "s0 = snd (constructor v c p)"
  note init = constructor_wired [OF assms(1,2), folded s0_def]
  note r = run_armed [OF init(1,2) assms(3)]
  have b: "blits (run es s0) = blits p @ map blit_of (frames_of es)"
    using r init(3) by simp
  have bo: "blit_of = (\<lambda>fr. \<lparr>src_frame = fr, dx = 0, dy = 0\<rparr>)"
    by (rule ext) (simp add: blit_of_def)
  obtain h k where q: "frame_callbacks (video_el (run es s0)) = [(h, Bound k ProcessFrame)]"
    and cb: "callback (this (run es s0)) = Some h"
    using r unfolding armed_def by blast
  have "blits (run es s0) = blits p @ map (\<lambda>fr. \<lparr>src_frame = fr, dx = 0, dy = 0\<rparr>) (frames_of es)"
    using b bo by simp
  moreover have "length (blits (run es s0)) = length (blits p) + length (frames_of es)"
    using b by simp
  moreover have "length (frame_callbacks (video_el (run es s0))) = 1" using q by simp
  ultimately show ?thesis using q cb unfolding s0_def by blast
qed

text \<open>C4, an instance: three frames, three blits, one callback queued.\<close>

theorem frames_blit_once_each_witness:
  "fresh_page page0 \<and> fst (constructor Elem Elem page0) = None \<and>
   CallDestroy \<notin> set [FramePresented 4, FramePresented 5, FramePresented 6] \<and>
   blits (run [FramePresented 4, FramePresented 5, FramePresented 6]
            (snd (constructor Elem Elem page0))) =
     [\<lparr>src_frame = 4, dx = 0, dy = 0\<rparr>, \<lparr>src_frame = 5, dx = 0, dy = 0\<rparr>,
      \<lparr>src_frame = 6, dx = 0, dy = 0\<rparr>] \<and>
   length (frame_callbacks (video_el (run [FramePresented 4, FramePresented 5, FramePresented 6]
            (snd (constructor Elem Elem page0))))) = 1"
proof -
  have f: "fresh_page page0" by (simp add: fresh_page_def page0_def)
  have c: "fst (constructor Elem Elem page0) = None" by (simp add: constructor_ok)
  have d: "CallDestroy \<notin> set [FramePresented 4, FramePresented 5, FramePresented 6]" by simp
  have b: "blits page0 = []" by (simp add: page0_def)
  from frames_blit_once_each [OF f c d] f c d b show ?thesis by simp
qed

subsection \<open>Construction\<close>

text \<open>
  C5. When the constructor returns on a fresh page, the canvas has the width and the height
  the video had when the constructor was called (which the constructor does not change), and
  exactly one frame callback is queued, a bound \<^verbatim>\<open>processFrame\<close> whose identifier is
  \<^verbatim>\<open>this.callback\<close>. No notification is involved.
\<close>

theorem constructor_sizes_and_arms:
  assumes "fresh_page p" and "fst (constructor v c p) = None"
  shows "width (canvas_el (snd (constructor v c p))) = videoWidth (video_el p) \<and>
         height (canvas_el (snd (constructor v c p))) = videoHeight (video_el p) \<and>
         videoWidth (video_el (snd (constructor v c p))) = videoWidth (video_el p) \<and>
         videoHeight (video_el (snd (constructor v c p))) = videoHeight (video_el p) \<and>
         length (frame_callbacks (video_el (snd (constructor v c p)))) = 1 \<and>
         (\<exists>h k. frame_callbacks (video_el (snd (constructor v c p))) =
                   [(h, Bound k ProcessFrame)] \<and>
                 callback (this (snd (constructor v c p))) = Some h)"
proof -
  from assms(2) have vc: "v = Elem" "c = Elem" by (simp_all add: constructor_ok)
  from assms(1) have e: "listeners (video_el p) = []" "frame_callbacks (video_el p) = []"
    by (simp_all add: fresh_page_def)
  show ?thesis
    using vc e
    by (simp add: constructor_def resize_def Let_def bind_method_def canvas_ops
        requestVideoFrameCallback_def addEventListener_def)
qed

text \<open>C5, an instance: a 640 by 360 video and a canvas of the default 300 by 150.\<close>

theorem constructor_sizes_and_arms_witness:
  "fresh_page page0 \<and> fst (constructor Elem Elem page0) = None \<and>
   width (canvas_el (snd (constructor Elem Elem page0))) = 640 \<and>
   height (canvas_el (snd (constructor Elem Elem page0))) = 360 \<and>
   length (frame_callbacks (video_el (snd (constructor Elem Elem page0)))) = 1"
proof -
  have f: "fresh_page page0" by (simp add: fresh_page_def page0_def)
  have c: "fst (constructor Elem Elem page0) = None" by (simp add: constructor_ok)
  have d: "videoWidth (video_el page0) = 640" "videoHeight (video_el page0) = 360"
    by (simp_all add: page0_def)
  from constructor_sizes_and_arms [OF f c] f c d show ?thesis by simp
qed

subsection \<open>Destroying twice\<close>

text \<open>
  C6. After a successful construction on a fresh page and any events, \<^verbatim>\<open>destroy()\<close> raises
  nothing, a second \<^verbatim>\<open>destroy()\<close> raises nothing either, and the second call changes
  nothing: cancelling the cancelled frame callback and removing listeners that are not
  registered are no-ops of the platform.
\<close>

theorem destroy_twice_ok:
  assumes "fresh_page p" and "fst (constructor v c p) = None"
  shows "fst (destroy (run es (snd (constructor v c p)))) = None \<and>
         fst (destroy (snd (destroy (run es (snd (constructor v c p)))))) = None \<and>
         snd (destroy (snd (destroy (run es (snd (constructor v c p)))))) =
           snd (destroy (run es (snd (constructor v c p))))"
proof -
  define s where "s = run es (snd (constructor v c p))"
  have w: "wired (binds p) s" unfolding s_def using reachable(1) [OF assms] .
  have w': "wired (binds p) (snd (destroy s))" using destroy_wired(2) [OF w] .
  from destroy_wired(1) [OF w] destroy_wired(1) [OF w'] destroy_idem [of s]
  show ?thesis unfolding s_def by simp
qed

text \<open>C6, an instance: \<^verbatim>\<open>destroy()\<close> twice after one frame.\<close>

theorem destroy_twice_ok_witness:
  "fresh_page page0 \<and> fst (constructor Elem Elem page0) = None \<and>
   fst (destroy (snd (destroy (run [FramePresented 3] (snd (constructor Elem Elem page0)))))) = None"
proof -
  have f: "fresh_page page0" by (simp add: fresh_page_def page0_def)
  have c: "fst (constructor Elem Elem page0) = None" by (simp add: constructor_ok)
  from destroy_twice_ok [OF f c, of "[FramePresented 3]"] f c show ?thesis by simp
qed

subsection \<open>Null handles\<close>

text \<open>
  C7 as stated fails: the constructor has no check of its arguments. With a video and a
  \<^verbatim>\<open>null\<close> canvas it raises only at \<^verbatim>\<open>canvas.getContext\<close>, after it has stored the
  \<^verbatim>\<open>null\<close> in \<^verbatim>\<open>this.canvas\<close> and registered its two listeners on the video, which had
  none; such a listener, when called, raises in turn on \<^verbatim>\<open>this.canvas.width\<close>.
\<close>

theorem null_canvas_leaves_listeners:
  "listeners (video_el page0) = [] \<and>
   fst (constructor Elem Null page0) = Some TypeError \<and>
   canvas (this (snd (constructor Elem Null page0))) = Null \<and>
   listeners (video_el (snd (constructor Elem Null page0))) =
     [(''resize'', Bound 0 Resize), (''loadedmetadata'', Bound 1 Resize)] \<and>
   fst (call (Bound 0 Resize) (snd (constructor Elem Null page0))) = Some TypeError"
  by (simp add: model_defs page0_def)

text \<open>
  C7, as the code has it. When the video or the canvas is \<^verbatim>\<open>null\<close> the constructor does
  not complete: it raises the TypeError of the first property read on the \<^verbatim>\<open>null\<close>. No
  frame callback has been queued, the canvas is untouched and nothing has been drawn; when
  the video is \<^verbatim>\<open>null\<close> the video element is untouched as well and no function object
  has been made.
\<close>

theorem null_handle_raises_type_error:
  assumes "v = Null \<or> c = Null"
  shows "fst (constructor v c w) = Some TypeError \<and>
         (v = Null \<longrightarrow> video_el (snd (constructor v c w)) = video_el w \<and>
                        binds (snd (constructor v c w)) = binds w) \<and>
         frame_callbacks (video_el (snd (constructor v c w))) = frame_callbacks (video_el w) \<and>
         canvas_el (snd (constructor v c w)) = canvas_el w \<and>
         blits (snd (constructor v c w)) = blits w"
  using assms
  by (cases v; cases c)
     (simp_all add: constructor_def Let_def bind_method_def addEventListener_def)

text \<open>C7, two instances: a \<^verbatim>\<open>null\<close> video, and a \<^verbatim>\<open>null\<close> canvas.\<close>

theorem null_handle_raises_type_error_witness:
  "(Null = Null \<or> Elem = Null) \<and> fst (constructor Null Elem page0) = Some TypeError \<and>
   fst (constructor Elem Null page0) = Some TypeError \<and>
   video_el (snd (constructor Null Elem page0)) = video_el page0"
  using null_handle_raises_type_error [of Null Elem page0]
        null_handle_raises_type_error [of Elem Null page0]
  by simp

subsection \<open>What destroy leaves alone\<close>

text \<open>
  C8. In every world, \<^verbatim>\<open>destroy()\<close> leaves the canvas as it was (width, height, filter and
  bitmap), draws nothing, and leaves the instance's \<^verbatim>\<open>video\<close>, \<^verbatim>\<open>canvas\<close>, \<^verbatim>\<open>ctx\<close> and
  \<^verbatim>\<open>callback\<close> fields as they were; it sets the destroyed flag. Of the video element only
  the listeners and the queued frame callbacks can change.
\<close>

theorem destroy_frame:
  "canvas_el (snd (destroy w)) = canvas_el w \<and>
   blits (snd (destroy w)) = blits w \<and>
   video (this (snd (destroy w))) = video (this w) \<and>
   canvas (this (snd (destroy w))) = canvas (this w) \<and>
   ctx (this (snd (destroy w))) = ctx (this w) \<and>
   callback (this (snd (destroy w))) = callback (this w) \<and>
   destroyed (this (snd (destroy w))) \<and>
   videoWidth (video_el (snd (destroy w))) = videoWidth (video_el w) \<and>
   videoHeight (video_el (snd (destroy w))) = videoHeight (video_el w) \<and>
   current_frame (video_el (snd (destroy w))) = current_frame (video_el w) \<and>
   last_handle (video_el (snd (destroy w))) = last_handle (video_el w) \<and>
   binds (snd (destroy w)) = binds w"
  by (simp add: destroy_def Let_def cancelVideoFrameCallback_def removeEventListener_def)

subsection \<open>The resize handler\<close>

text \<open>
  C9. On an instance that holds its video, canvas and context, \<^verbatim>\<open>resize\<close> completes and
  leaves the filter \<^verbatim>\<open>contrast(1.5) saturate(200%)\<close>, whatever the filter was before and
  although the two writes of the dimensions have reset it to \<^verbatim>\<open>none\<close> on the way.
\<close>

theorem resize_sets_fixed_filter:
  assumes "video (this w) = Elem" and "canvas (this w) = Elem" and "ctx (this w) = Elem"
  shows "fst (resize w) = None \<and>
         ctx_filter (canvas_el (snd (resize w))) = ''contrast(1.5) saturate(200%)'' \<and>
         ctx_filter (set_height (videoHeight (video_el w))
                      (set_width (videoWidth (video_el w)) (canvas_el w))) = ''none''"
  using assms by (simp add: resize_def Let_def canvas_ops filter_expr_def)

text \<open>C9, an instance: \<^verbatim>\<open>resize\<close> on the instance just constructed.\<close>

theorem resize_sets_fixed_filter_witness:
  "video (this (snd (constructor Elem Elem page0))) = Elem \<and>
   canvas (this (snd (constructor Elem Elem page0))) = Elem \<and>
   ctx (this (snd (constructor Elem Elem page0))) = Elem \<and>
   fst (resize (snd (constructor Elem Elem page0))) = None \<and>
   ctx_filter (canvas_el (snd (resize (snd (constructor Elem Elem page0))))) =
     ''contrast(1.5) saturate(200%)''"
proof -
  have r: "video (this (snd (constructor Elem Elem page0))) = Elem"
    "canvas (this (snd (constructor Elem Elem page0))) = Elem"
    "ctx (this (snd (constructor Elem Elem page0))) = Elem"
    by (simp_all add: model_defs page0_def)
  from resize_sets_fixed_filter [OF r] r show ?thesis by simp
qed

text \<open>
  C10. In every world, \<^verbatim>\<open>resize\<close> called a second time, the video unchanged in between,
  has the outcome and leaves the world of the first call; in particular the canvas has the
  same width, height and filter.
\<close>

theorem resize_idempotent:
  "resize (snd (resize w)) = resize w \<and>
   width (canvas_el (snd (resize (snd (resize w))))) = width (canvas_el (snd (resize w))) \<and>
   height (canvas_el (snd (resize (snd (resize w))))) = height (canvas_el (snd (resize w))) \<and>
   ctx_filter (canvas_el (snd (resize (snd (resize w))))) =
     ctx_filter (canvas_el (snd (resize w)))"
proof -
  have "resize (snd (resize w)) = resize w"
    by (simp add: resize_def Let_def canvas_ops)
  then show ?thesis by simp
qed

text \<open>C10, an instance: on the instance just constructed \<^verbatim>\<open>resize\<close> completes, and a second
  call leaves the 640 by 360 canvas and its filter as the first did.\<close>

theorem resize_idempotent_witness:
  "fst (resize (snd (constructor Elem Elem page0))) = None \<and>
   resize (snd (resize (snd (constructor Elem Elem page0)))) =
     resize (snd (constructor Elem Elem page0)) \<and>
   width (canvas_el (snd (resize (snd (resize (snd (constructor Elem Elem page0))))))) = 640 \<and>
   height (canvas_el (snd (resize (snd (resize (snd (constructor Elem Elem page0))))))) = 360"
proof -
  have r: "fst (resize (snd (constructor Elem Elem page0))) = None"
    "width (canvas_el (snd (resize (snd (constructor Elem Elem page0))))) = 640"
    "height (canvas_el (snd (resize (snd (constructor Elem Elem page0))))) = 360"
    by (simp_all add: model_defs page0_def)
  from resize_idempotent [of "snd (constructor Elem Elem page0)"] r show ?thesis by simp
qed

end
